theory Spec2Isabelle
  imports Complex_Main "HOL-Library.AList"
begin

section \<open>rosidl\_pycommon: template-driven file generation\<close>

text \<open>
  A shallow embedding of \<^verbatim>\<open>rosidl_pycommon/__init__.py\<close>. Python exceptions are
  values of type \<open>exn\<close>, and every function that can raise returns a sum whose left
  injection is the exception. Functions that touch the module's global variables or the
  file system take the program state and return the new one, also when they raise.
\<close>

subsection \<open>Exceptions\<close>

text \<open>
  The exception classes that the module and the library calls it makes can raise.
  \<open>SystemExit\<close> and \<open>KeyboardInterrupt\<close> derive from \<open>BaseException\<close> only, so an
  \<^verbatim>\<open>except Exception\<close> clause does not catch them; \<open>OtherException\<close> stands for
  any further subclass of \<open>Exception\<close>, named by its class name.
\<close>

datatype exc_class =
    AssertionError | FileExistsError | FileNotFoundError | IndexError | KeyError
  | NameError | RecursionError | RuntimeError | TypeError
  | SystemExit | KeyboardInterrupt | OtherException string

datatype exn = Exc (cls: exc_class) (msg: string)

fun is_Exception :: "exn \<Rightarrow> bool" where
  "is_Exception (Exc SystemExit _) = False"
| "is_Exception (Exc KeyboardInterrupt _) = False"
| "is_Exception (Exc _ _) = True"

text \<open>\<open>IOError\<close> is an alias of \<open>OSError\<close>, whose subclasses here are the two file errors.\<close>

fun is_OSError :: "exn \<Rightarrow> bool" where
  "is_OSError (Exc FileNotFoundError _) = True"
| "is_OSError (Exc FileExistsError _) = True"
| "is_OSError (Exc _ _) = False"

fun class_name :: "exc_class \<Rightarrow> string" where
  "class_name AssertionError = ''AssertionError''"
| "class_name FileExistsError = ''FileExistsError''"
| "class_name FileNotFoundError = ''FileNotFoundError''"
| "class_name IndexError = ''IndexError''"
| "class_name KeyError = ''KeyError''"
| "class_name NameError = ''NameError''"
| "class_name RecursionError = ''RecursionError''"
| "class_name RuntimeError = ''RuntimeError''"
| "class_name TypeError = ''TypeError''"
| "class_name SystemExit = ''SystemExit''"
| "class_name KeyboardInterrupt = ''KeyboardInterrupt''"
| "class_name (OtherException n) = n"

subsection \<open>The naming normalizer\<close>

text \<open>
  Strings are lists of 8-bit characters. The character classes \<^verbatim>\<open>[A-Z]\<close>,
  \<^verbatim>\<open>[a-z]\<close> and \<^verbatim>\<open>[a-z0-9]\<close> of the two regular expressions are ASCII ranges, and
  \<^verbatim>\<open>str.lower\<close> is modelled on the ASCII letters (every other character is its own
  lower case).
\<close>

definition is_upper :: "char \<Rightarrow> bool" where
  "is_upper c = (let n = (of_char c :: nat) in 65 \<le> n \<and> n \<le> 90)"

definition is_lower :: "char \<Rightarrow> bool" where
  "is_lower c = (let n = (of_char c :: nat) in 97 \<le> n \<and> n \<le> 122)"

definition is_digit :: "char \<Rightarrow> bool" where
  "is_digit c = (let n = (of_char c :: nat) in 48 \<le> n \<and> n \<le> 57)"

definition lower_char :: "char \<Rightarrow> char" where
  "lower_char c = (if is_upper c then char_of (of_char c + (32::nat)) else c)"

text \<open>
  \<^verbatim>\<open>re.sub('(.)([A-Z][a-z]+)', r'\1_\2', value)\<close>: the string is scanned from the left;
  at a position where a character other than a newline is followed by an upper-case
  letter and at least one lower-case letter, the match takes the whole run of lower-case
  letters (the \<^verbatim>\<open>+\<close> is greedy), an underscore is put after the first character, and
  the scan goes on after the match. Matches do not overlap.
\<close>

function (sequential) sub_upper_lower :: "string \<Rightarrow> string" where
  "sub_upper_lower (c # u # l # rest) =
     (if c \<noteq> CHR 0x0A \<and> is_upper u \<and> is_lower l
      then c # CHR ''_'' # u # l # takeWhile is_lower rest
             @ sub_upper_lower (dropWhile is_lower rest)
      else c # sub_upper_lower (u # l # rest))"
| "sub_upper_lower s = s"
  by pat_completeness auto
termination
proof (relation "measure length")
  fix c u l :: char and rest :: string
  have "length (dropWhile is_lower rest) \<le> length rest"
    by (rule length_dropWhile_le)
  then show "(dropWhile is_lower rest, c # u # l # rest) \<in> measure length"
    by simp
qed simp_all

text \<open>\<^verbatim>\<open>re.sub('([a-z0-9])([A-Z])', r'\1_\2', value)\<close>, scanned in the same way.\<close>

fun sub_lower_upper :: "string \<Rightarrow> string" where
  "sub_lower_upper (c # u # rest) =
     (if (is_lower c \<or> is_digit c) \<and> is_upper u
      then c # CHR ''_'' # u # sub_lower_upper rest
      else c # sub_lower_upper (u # rest))"
| "sub_lower_upper s = s"

definition convert_camel_case_to_lower_case_underscore :: "string \<Rightarrow> string" where
  "convert_camel_case_to_lower_case_underscore v =
     map lower_char (sub_lower_upper (sub_upper_lower v))"

subsection \<open>The file system\<close>

text \<open>
  Regular files are a map from path strings to content and modification time;
  directories are a set of path strings. Only the order of timestamps is ever used, so
  the floats of \<^verbatim>\<open>os.path.getmtime\<close> are reals. The paths that the module probes with
  \<^verbatim>\<open>exists\<close>, reads, writes or removes are taken to name regular files (or nothing),
  and the file tree is taken to be sound: no permission, encoding or device error
  occurs.
\<close>

datatype regular_file = File (text_of: string) (mtime: real)

record filesystem =
  files :: "string \<rightharpoonup> regular_file"
  dirs :: "string set"

definition file_not_found :: "string \<Rightarrow> exn" where
  "file_not_found p =
     Exc FileNotFoundError (''[Errno 2] No such file or directory: '' @ [CHR 0x27] @ p @ [CHR 0x27])"

definition os_path_exists :: "filesystem \<Rightarrow> string \<Rightarrow> bool" where
  "os_path_exists fs p = (files fs p \<noteq> None)"

definition os_path_getmtime :: "filesystem \<Rightarrow> string \<Rightarrow> exn + real" where
  "os_path_getmtime fs p =
     (case files fs p of None \<Rightarrow> Inl (file_not_found p) | Some f \<Rightarrow> Inr (mtime f))"

subsection \<open>The staleness oracle\<close>

text \<open>
  The loop of \<^verbatim>\<open>get_newest_modification_time\<close>, with \<open>newest_timestamp\<close> as its
  accumulator. \<^verbatim>\<open>os.path.getmtime\<close> raises for a missing path, which ends the loop.
\<close>

fun newest_loop :: "filesystem \<Rightarrow> string list \<Rightarrow> real option \<Rightarrow> exn + real option" where
  "newest_loop fs [] newest_timestamp = Inr newest_timestamp"
| "newest_loop fs (dep # deps) newest_timestamp =
     (case os_path_getmtime fs dep of
        Inl e \<Rightarrow> Inl e
      | Inr ts \<Rightarrow>
          newest_loop fs deps
            (if newest_timestamp = None \<or> ts > the newest_timestamp
             then Some ts else newest_timestamp))"

definition get_newest_modification_time :: "filesystem \<Rightarrow> string list \<Rightarrow> exn + real option" where
  "get_newest_modification_time fs target_dependencies =
     newest_loop fs target_dependencies None"

text \<open>The modification time of an existing file, for stating results.\<close>

definition mtime_of :: "filesystem \<Rightarrow> string \<Rightarrow> real" where
  "mtime_of fs p = mtime (the (files fs p))"

subsection \<open>Paths\<close>

text \<open>
  \<^verbatim>\<open>os.path.dirname\<close>, \<^verbatim>\<open>os.path.basename\<close> and \<^verbatim>\<open>os.path.join\<close> of
  \<^verbatim>\<open>posixpath\<close>, on strings. The directory name is the part up to the last slash,
  without its trailing slashes unless it consists of slashes only.
\<close>

definition is_slash :: "char \<Rightarrow> bool" where
  "is_slash c = (c = CHR ''/'')"

definition os_path_dirname :: "string \<Rightarrow> string" where
  "os_path_dirname p =
     (let head = rev (dropWhile (\<lambda>c. \<not> is_slash c) (rev p))
      in if head \<noteq> [] \<and> \<not> list_all is_slash head
         then rev (dropWhile is_slash (rev head)) else head)"

definition os_path_basename :: "string \<Rightarrow> string" where
  "os_path_basename p = rev (takeWhile (\<lambda>c. \<not> is_slash c) (rev p))"

fun os_path_join :: "string \<Rightarrow> string list \<Rightarrow> string" where
  "os_path_join a [] = a"
| "os_path_join a (b # bs) =
     os_path_join
       (if b \<noteq> [] \<and> is_slash (hd b) then b
        else if a = [] \<or> is_slash (last a) then a @ b
        else a @ ''/'' @ b) bs"

text \<open>
  A \<^verbatim>\<open>pathlib.Path\<close> (a pure POSIX path) is its root flag and its components.
  Constructing one drops empty and \<^verbatim>\<open>.\<close> components; \<^verbatim>\<open>str\<close> joins them again.
  (The POSIX special case of exactly two leading slashes is not modelled.)
\<close>

datatype ppath = PPath (is_absolute: bool) (names: "string list")

fun split_on :: "char \<Rightarrow> string \<Rightarrow> string list" where
  "split_on c [] = [[]]"
| "split_on c (x # xs) =
     (if x = c then [] # split_on c xs
      else (case split_on c xs of w # ws \<Rightarrow> (x # w) # ws | [] \<Rightarrow> [[x]]))"

fun join_with :: "string \<Rightarrow> string list \<Rightarrow> string" where
  "join_with sep [] = []"
| "join_with sep [w] = w"
| "join_with sep (w # ws) = w @ sep @ join_with sep ws"

definition Path :: "string \<Rightarrow> ppath" where
  "Path s = PPath (s \<noteq> [] \<and> is_slash (hd s))
                  (filter (\<lambda>w. w \<noteq> [] \<and> w \<noteq> ''.'') (split_on CHR ''/'' s))"

definition str :: "ppath \<Rightarrow> string" where
  "str p = (if is_absolute p then ''/'' @ join_with ''/'' (names p)
            else if names p = [] then ''.'' else join_with ''/'' (names p))"

text \<open>\<^verbatim>\<open>p / q\<close>: an absolute right operand replaces the left one.\<close>

definition joinpath :: "ppath \<Rightarrow> ppath \<Rightarrow> ppath" where
  "joinpath p q = (if is_absolute q then q else PPath (is_absolute p) (names p @ names q))"

definition truediv :: "ppath \<Rightarrow> string \<Rightarrow> ppath" where
  "truediv p s = joinpath p (Path s)"

definition parent :: "ppath \<Rightarrow> ppath" where
  "parent p = PPath (is_absolute p) (butlast (names p))"

definition name :: "ppath \<Rightarrow> string" where
  "name p = (if names p = [] then [] else last (names p))"

text \<open>
  \<^verbatim>\<open>suffix\<close> and \<^verbatim>\<open>stem\<close> split the name at its last dot, unless that dot is the
  first or the last character of the name. \<open>dot_index\<close> is \<^verbatim>\<open>name.rfind('.')\<close>, given
  as the length of the part before the last dot.
\<close>

definition dot_index :: "string \<Rightarrow> nat option" where
  "dot_index n =
     (if CHR ''.'' \<in> set n
      then Some (length n - Suc (length (takeWhile (\<lambda>c. c \<noteq> CHR ''.'') (rev n))))
      else None)"

definition suffix :: "ppath \<Rightarrow> string" where
  "suffix p =
     (case dot_index (name p) of
        Some i \<Rightarrow> if 0 < i \<and> i < length (name p) - 1 then drop i (name p) else []
      | None \<Rightarrow> [])"

definition stem :: "ppath \<Rightarrow> string" where
  "stem p =
     (case dot_index (name p) of
        Some i \<Rightarrow> if 0 < i \<and> i < length (name p) - 1 then take i (name p) else name p
      | None \<Rightarrow> name p)"

text \<open>\<^verbatim>\<open>parts\<close> has the root as its first element when the path is absolute.\<close>

definition parts :: "ppath \<Rightarrow> string list" where
  "parts p = (if is_absolute p then [''/''] else []) @ names p"

definition exists :: "filesystem \<Rightarrow> ppath \<Rightarrow> bool" where
  "exists fs p = os_path_exists fs (str p)"

text \<open>\<^verbatim>\<open>s.split(':', 1)\<close> and \<^verbatim>\<open>s.rsplit(':', 1)\<close>: one or two parts.\<close>

definition split_colon :: "string \<Rightarrow> string list" where
  "split_colon s =
     (if CHR '':'' \<in> set s
      then [takeWhile (\<lambda>c. c \<noteq> CHR '':'') s, tl (dropWhile (\<lambda>c. c \<noteq> CHR '':'') s)]
      else [s])"

definition rsplit_colon :: "string \<Rightarrow> string list" where
  "rsplit_colon s =
     (if CHR '':'' \<in> set s
      then [rev (tl (dropWhile (\<lambda>c. c \<noteq> CHR '':'') (rev s))),
            rev (takeWhile (\<lambda>c. c \<noteq> CHR '':'') (rev s))]
      else [s])"

definition quoted :: "string \<Rightarrow> string" where
  "quoted s = [CHR 0x27] @ s @ [CHR 0x27]"

subsection \<open>Program state\<close>

text \<open>
  Python values as far as the module handles them: the render context maps names to
  values, among them the function object \<^verbatim>\<open>_expand_template\<close> that
  \<^verbatim>\<open>_add_helper_functions\<close> stores under \<^verbatim>\<open>TEMPLATE\<close>. Parsed IDL content and JSON
  data are opaque objects.
\<close>

datatype pyval =
    PyNone | PyBool bool | PyStr string | PyPath ppath | PyObj nat | PyExpandTemplate

type_synonym dict = "(string \<times> pyval) list"

text \<open>
  The interpreter object writes into the \<^verbatim>\<open>StringIO\<close> it was created with; the
  model keeps the text of that sink in the interpreter.
\<close>

record interpreter_obj =
  sink :: string
  shut_down :: bool

text \<open>
  The state: the file system and its clock (the modification time that a write gives),
  the module's globals \<^verbatim>\<open>template_prefix_path\<close> and \<^verbatim>\<open>interpreter\<close>, the
  dictionary objects (a dictionary is referred to by its index in \<open>heap\<close>, since the
  code copies and mutates dictionaries), and what was printed to \<^verbatim>\<open>sys.stderr\<close>.
\<close>

record state =
  fsys :: filesystem
  now :: real
  template_prefix_path :: "ppath list"
  interpreter :: "interpreter_obj option"
  heap :: "dict list"
  stderr :: "string list"

type_synonym 'a result = "(exn + 'a) \<times> state"

subsection \<open>Collaborators outside the module\<close>

text \<open>
  What the template engine does with a template text and its locals is a list of
  actions: it writes text to its output, assigns a local, calls \<^verbatim>\<open>TEMPLATE(name, **kwargs)\<close>,
  or raises. The engine, the IDL parser, the JSON decoder and the \<^verbatim>\<open>%\<close> formatting
  of strings are parameters of the model.
\<close>

datatype action = Emit string | Assign string pyval | Include string dict | Raise exn

record idl_locator =
  locator_basepath :: ppath
  locator_relative_path :: ppath

text \<open>
  The parsed arguments file: the JSON object's entries that the module reads, each
  absent (\<open>None\<close>) or present. The key of field \<open>args_k\<close> is \<^verbatim>\<open>k\<close>.
\<close>

record generator_arguments =
  args_template_dir :: "string option"
  args_output_dir :: "string option"
  args_package_name :: "string option"
  args_target_dependencies :: "string list option"
  args_type_description_tuples :: "string list option"
  args_ros_interface_files :: "string list option"
  args_idl_tuples :: "string list option"

record env =
  em_Interpreter :: "exn option"
  em_invoke :: "string \<Rightarrow> exn option"
  em_string :: "string \<Rightarrow> dict \<Rightarrow> action list"
  parse_idl_file :: "idl_locator \<Rightarrow> exn + pyval"
  json_load :: "string \<Rightarrow> exn + pyval"
  json_load_arguments :: "string \<Rightarrow> exn + generator_arguments"
  percent_format :: "string \<Rightarrow> string \<Rightarrow> exn + string"

text \<open>Modelled from the spec: \<^verbatim>\<open>IdlLocator.get_absolute_path\<close> of the parser package,
  which the spec gives as the path of the file addressed by base directory and relative
  path.\<close>

definition get_absolute_path :: "idl_locator \<Rightarrow> ppath" where
  "get_absolute_path locator =
     joinpath (locator_basepath locator) (locator_relative_path locator)"

subsection \<open>File and dictionary operations\<close>

definition read_text :: "filesystem \<Rightarrow> string \<Rightarrow> exn + string" where
  "read_text fs p = (case files fs p of None \<Rightarrow> Inl (file_not_found p) | Some f \<Rightarrow> Inr (text_of f))"

text \<open>\<^verbatim>\<open>open(p, 'w')\<close> and \<^verbatim>\<open>write\<close>: the file gets the content and the current time.\<close>

definition write_text :: "string \<Rightarrow> string \<Rightarrow> state \<Rightarrow> state" where
  "write_text p c st =
     st\<lparr>fsys := (fsys st)\<lparr>files := (files (fsys st))(p \<mapsto> File c (now st))\<rparr>\<rparr>"

definition os_remove :: "string \<Rightarrow> state \<Rightarrow> unit result" where
  "os_remove p st =
     (case files (fsys st) p of
        None \<Rightarrow> (Inl (file_not_found p), st)
      | Some f \<Rightarrow> (Inr (), st\<lparr>fsys := (fsys st)\<lparr>files := (files (fsys st))(p := None)\<rparr>\<rparr>))"

text \<open>
  \<^verbatim>\<open>os.makedirs(d)\<close> creates the directory and the missing directories above it. The
  empty path names no directory (\<^verbatim>\<open>mkdir('')\<close> fails with ENOENT), and an existing
  directory is an error since \<^verbatim>\<open>exist_ok\<close> is not given.
\<close>

definition dir_prefixes :: "string \<Rightarrow> string list" where
  "dir_prefixes d =
     map (\<lambda>i. take i d) (filter (\<lambda>i. i = length d \<or> is_slash (d ! i)) [1..<Suc (length d)])"

definition os_makedirs :: "string \<Rightarrow> state \<Rightarrow> unit result" where
  "os_makedirs d st =
     (if d = [] then (Inl (file_not_found d), st)
      else if d \<in> dirs (fsys st)
      then (Inl (Exc FileExistsError (''[Errno 17] File exists: '' @ quoted d)), st)
      else (Inr (), st\<lparr>fsys := (fsys st)\<lparr>dirs := dirs (fsys st) \<union> set (dir_prefixes d)\<rparr>\<rparr>))"

definition alloc :: "dict \<Rightarrow> state \<Rightarrow> nat \<times> state" where
  "alloc d st = (length (heap st), st\<lparr>heap := heap st @ [d]\<rparr>)"

definition dict_set :: "nat \<Rightarrow> string \<Rightarrow> pyval \<Rightarrow> state \<Rightarrow> state" where
  "dict_set a k v st = st\<lparr>heap := (heap st)[a := AList.update k v (heap st ! a)]\<rparr>"

definition print_stderr :: "string \<Rightarrow> state \<Rightarrow> state" where
  "print_stderr line st = st\<lparr>stderr := stderr st @ [line]\<rparr>"

definition write_output :: "string \<Rightarrow> state \<Rightarrow> state" where
  "write_output s st =
     st\<lparr>interpreter := map_option (\<lambda>i. i\<lparr>sink := sink i @ s\<rparr>) (interpreter st)\<rparr>"

definition getvalue :: "state \<Rightarrow> string" where
  "getvalue st = (case interpreter st of None \<Rightarrow> [] | Some i \<Rightarrow> sink i)"

subsection \<open>Template lookup\<close>

text \<open>The loop of \<^verbatim>\<open>get_template_path\<close> over \<^verbatim>\<open>template_prefix_path\<close>.\<close>

fun probe :: "filesystem \<Rightarrow> ppath list \<Rightarrow> string \<Rightarrow> ppath option" where
  "probe fs [] template_name = None"
| "probe fs (basepath # rest) template_name =
     (let template_path = truediv basepath template_name
      in if exists fs template_path then Some template_path
         else probe fs rest template_name)"

definition template_not_found :: "string \<Rightarrow> exn" where
  "template_not_found template_name =
     Exc RuntimeError (''Failed to find template '' @ quoted template_name)"

definition get_template_path :: "state \<Rightarrow> string \<Rightarrow> exn + ppath" where
  "get_template_path st template_name =
     (case probe (fsys st) (template_prefix_path st) template_name of
        Some template_path \<Rightarrow> Inr template_path
      | None \<Rightarrow> Inl (template_not_found template_name))"

subsection \<open>Nested inclusion\<close>

text \<open>
  \<^verbatim>\<open>_add_helper_functions\<close> and \<^verbatim>\<open>_expand_template\<close> (Isabelle names cannot start
  with an underscore, so the prefix is \<open>priv\<close>). \<open>run_actions\<close> is the engine's
  \<^verbatim>\<open>interpreter.string\<close> at work on locals held at heap index \<open>l\<close>: a call of
  \<^verbatim>\<open>TEMPLATE\<close> looks the name up in the locals and enters \<^verbatim>\<open>_expand_template\<close>
  with a fresh dictionary of the keyword arguments. The first argument after the
  environment bounds the depth of nested calls: Python raises \<open>RecursionError\<close> when
  its call stack is used up, so an include cycle ends with that exception.
\<close>

definition priv_add_helper_functions :: "nat \<Rightarrow> state \<Rightarrow> state" where
  "priv_add_helper_functions a st = dict_set a ''TEMPLATE'' PyExpandTemplate st"

fun run_actions :: "env \<Rightarrow> nat \<Rightarrow> nat \<Rightarrow> action list \<Rightarrow> state \<Rightarrow> unit result"
  and priv_expand_template :: "env \<Rightarrow> nat \<Rightarrow> string \<Rightarrow> dict \<Rightarrow> state \<Rightarrow> unit result"
where
  "run_actions E depth l [] st = (Inr (), st)"
| "run_actions E depth l (Emit s # acts) st = run_actions E depth l acts (write_output s st)"
| "run_actions E depth l (Assign k v # acts) st = run_actions E depth l acts (dict_set l k v st)"
| "run_actions E depth l (Raise e # acts) st = (Inl e, st)"
| "run_actions E depth l (Include template_name kwargs # acts) st =
     (case map_of (heap st ! l) ''TEMPLATE'' of
        None \<Rightarrow> (Inl (Exc NameError (''name '' @ quoted ''TEMPLATE'' @ '' is not defined'')), st)
      | Some PyExpandTemplate \<Rightarrow>
          (case priv_expand_template E depth template_name kwargs st of
             (Inl e, st') \<Rightarrow> (Inl e, st')
           | (Inr u, st') \<Rightarrow> run_actions E depth l acts st')
      | Some v \<Rightarrow> (Inl (Exc TypeError ''object is not callable''), st))"
| "priv_expand_template E 0 template_name kwargs st =
     (Inl (Exc RecursionError ''maximum recursion depth exceeded''), st)"
| "priv_expand_template E (Suc depth) template_name kwargs st =
     (case get_template_path st template_name of
        Inl e \<Rightarrow> (Inl e, st)
      | Inr template_path \<Rightarrow>
          (let (k, st1) = alloc kwargs st;
               st2 = priv_add_helper_functions k st1
           in if interpreter st2 = None
              then (Inl (Exc RuntimeError ''_expand_template called before expand_template''), st2)
              else
                (case read_text (fsys st2) (str template_path) of
                   Inl e \<Rightarrow> (Inl e, st2)
                 | Inr content \<Rightarrow>
                     (case em_invoke E ''beforeInclude'' of
                        Some e \<Rightarrow> (Inl e, st2)
                      | None \<Rightarrow>
                          (case run_actions E depth k (em_string E content (heap st2 ! k)) st2 of
                             (Inl e, st3) \<Rightarrow>
                               (Inl e,
                                if is_Exception e
                                then print_stderr
                                       (class_name (cls e) @ '' in template ''
                                          @ quoted (str template_path) @ '': '' @ msg e) st3
                                else st3)
                           | (Inr u, st3) \<Rightarrow>
                               (case em_invoke E ''afterInclude'' of
                                  Some e \<Rightarrow> (Inl e, st3)
                                | None \<Rightarrow> (Inr (), st3)))))))"

subsection \<open>The template expander\<close>

text \<open>
  The body of the \<^verbatim>\<open>try\<close> statement of \<^verbatim>\<open>expand_template\<close> (lines 202 to 210):
  the template is opened and read, the \<^verbatim>\<open>beforeFile\<close> hook runs, the engine renders
  the text against the locals at heap index \<open>l\<close>, and the \<^verbatim>\<open>afterFile\<close> hook runs.
\<close>

definition expand_template_try ::
  "env \<Rightarrow> nat \<Rightarrow> ppath \<Rightarrow> nat \<Rightarrow> state \<Rightarrow> unit result" where
  "expand_template_try E depth template_path l st =
     (case read_text (fsys st) (str template_path) of
        Inl e \<Rightarrow> (Inl e, st)
      | Inr template_content \<Rightarrow>
          (case em_invoke E ''beforeFile'' of
             Some e \<Rightarrow> (Inl e, st)
           | None \<Rightarrow>
               (case run_actions E depth l (em_string E template_content (heap st ! l)) st of
                  (Inl e, st') \<Rightarrow> (Inl e, st')
                | (Inr u, st') \<Rightarrow>
                    (case em_invoke E ''afterFile'' of
                       Some e \<Rightarrow> (Inl e, st')
                     | None \<Rightarrow> (Inr (), st')))))"

text \<open>
  The \<^verbatim>\<open>except Exception\<close> clause (lines 211 to 216): an existing output file is
  removed and the diagnostic is printed; the exception is raised again by the caller
  of this function.
\<close>

definition expand_template_except :: "exn \<Rightarrow> string \<Rightarrow> string \<Rightarrow> state \<Rightarrow> unit result" where
  "expand_template_except e template_name output_file st =
     (case (if os_path_exists (fsys st) output_file then os_remove output_file st
            else (Inr (), st)) of
        (Inl e', st') \<Rightarrow> (Inl e', st')
      | (Inr u, st') \<Rightarrow>
          (Inl e,
           print_stderr
             (class_name (cls e) @ '' when expanding '' @ quoted template_name @ '' into ''
                @ quoted output_file @ '': '' @ msg e) st'))"

text \<open>
  The end of \<^verbatim>\<open>expand_template\<close> (lines 226 to 242): the file is left alone when it
  exists, is new enough and has the content already; a missing file gets its directory
  made, where only \<open>FileExistsError\<close> is caught; then the content is written.
\<close>

definition write_if_necessary :: "string \<Rightarrow> real option \<Rightarrow> string \<Rightarrow> state \<Rightarrow> unit result" where
  "write_if_necessary output_file minimum_timestamp content st =
     (if os_path_exists (fsys st) output_file
      then
        (case os_path_getmtime (fsys st) output_file of
           Inl e \<Rightarrow> (Inl e, st)
         | Inr timestamp \<Rightarrow>
             if minimum_timestamp = None \<or> timestamp > the minimum_timestamp
             then
               (case read_text (fsys st) output_file of
                  Inl e \<Rightarrow> (Inl e, st)
                | Inr old \<Rightarrow>
                    if old = content then (Inr (), st)
                    else (Inr (), write_text output_file content st))
             else (Inr (), write_text output_file content st))
      else
        (case os_makedirs (os_path_dirname output_file) st of
           (Inl e, st') \<Rightarrow>
             if cls e = FileExistsError then (Inr (), write_text output_file content st')
             else (Inl e, st')
         | (Inr u, st') \<Rightarrow> (Inr (), write_text output_file content st')))"

text \<open>
  \<^verbatim>\<open>expand_template\<close>. \<open>data\<close> is the heap index of the caller's dictionary. The
  \<^verbatim>\<open>finally\<close> clause pops the search path after the \<^verbatim>\<open>try\<close> statement, however it
  ends; what comes before the \<^verbatim>\<open>try\<close> (the push, the lookup, the construction of the
  interpreter, the copy of the dictionary) is outside it.
\<close>

definition legacy_api :: "ppath option \<Rightarrow> string \<Rightarrow> ppath \<times> string" where
  "legacy_api template_basepath template_name =
     (case template_basepath of
        None \<Rightarrow> (parent (Path template_name), name (Path template_name))
      | Some b \<Rightarrow> (b, template_name))"

definition push_template_prefix_path :: "ppath \<Rightarrow> state \<Rightarrow> state" where
  "push_template_prefix_path template_basepath st =
     st\<lparr>template_prefix_path := template_prefix_path st @ [template_basepath]\<rparr>"

definition pop_template_prefix_path :: "state \<Rightarrow> state" where
  "pop_template_prefix_path st = st\<lparr>template_prefix_path := butlast (template_prefix_path st)\<rparr>"

text \<open>Lines 176 to 199, after the interpreter's constructor has returned: the global
  is set, the caller's dictionary is copied, and the helper is added to the copy.\<close>

definition copy_data :: "nat \<Rightarrow> state \<Rightarrow> nat \<times> state" where
  "copy_data data st =
     (let st2 = st\<lparr>interpreter := Some \<lparr>sink = [], shut_down = False\<rparr>\<rparr>;
          (l, st3) = alloc (heap st2 ! data) st2
      in (l, priv_add_helper_functions l st3))"

definition shutdown :: "state \<Rightarrow> state" where
  "shutdown st = st\<lparr>interpreter := map_option (\<lambda>i. i\<lparr>shut_down := True\<rparr>) (interpreter st)\<rparr>"

definition expand_template ::
  "env \<Rightarrow> nat \<Rightarrow> string \<Rightarrow> nat \<Rightarrow> string \<Rightarrow> real option \<Rightarrow> ppath option
     \<Rightarrow> (string \<Rightarrow> exn + string) option \<Rightarrow> state \<Rightarrow> unit result" where
  "expand_template E depth template_name0 data output_file minimum_timestamp template_basepath0
       post_process_callback st0 =
     (let (template_basepath, template_name) = legacy_api template_basepath0 template_name0;
          st1 = push_template_prefix_path template_basepath st0
      in case get_template_path st1 template_name of
           Inl e \<Rightarrow> (Inl e, st1)
         | Inr template_path \<Rightarrow>
             (case em_Interpreter E of
                Some e \<Rightarrow> (Inl e, st1)
              | None \<Rightarrow>
                  (let (l, st4) = copy_data data st1
                   in case expand_template_try E depth template_path l st4 of
                        (Inl e, st5) \<Rightarrow>
                          (if is_Exception e
                           then (case expand_template_except e template_name output_file st5 of
                                   (r, st6) \<Rightarrow> (r, pop_template_prefix_path st6))
                           else (Inl e, pop_template_prefix_path st5))
                      | (Inr u, st5) \<Rightarrow>
                          (let st6 = pop_template_prefix_path st5;
                               content = getvalue st6;
                               st7 = shutdown st6
                           in case post_process_callback of
                                None \<Rightarrow> write_if_necessary output_file minimum_timestamp content st7
                              | Some callback \<Rightarrow>
                                  (case callback content of
                                     Inl e \<Rightarrow> (Inl e, st7)
                                   | Inr content' \<Rightarrow>
                                       write_if_necessary output_file minimum_timestamp content' st7)))))"

subsection \<open>The generation orchestrator\<close>

definition read_generator_arguments ::
  "env \<Rightarrow> filesystem \<Rightarrow> string \<Rightarrow> exn + generator_arguments" where
  "read_generator_arguments E fs input_file =
     (case read_text fs input_file of
        Inl e \<Rightarrow> Inl e
      | Inr h \<Rightarrow> json_load_arguments E h)"

definition key_error :: "string \<Rightarrow> exn" where
  "key_error k = Exc KeyError (quoted k)"

text \<open>The loop of lines 79 to 81: every key of the mapping must exist under the
  template directory.\<close>

fun assert_templates_exist :: "filesystem \<Rightarrow> ppath \<Rightarrow> string list \<Rightarrow> exn option" where
  "assert_templates_exist fs template_basepath [] = None"
| "assert_templates_exist fs template_basepath (template_filename # rest) =
     (if exists fs (truediv template_basepath template_filename)
      then assert_templates_exist fs template_basepath rest
      else Some (Exc AssertionError (''Could not find template: '' @ template_filename)))"

text \<open>The loops of lines 86 to 90 and 91 to 96, which fill two dictionaries.\<close>

fun collect_type_description_files ::
  "string list \<Rightarrow> (string \<times> string) list \<Rightarrow> exn + (string \<times> string) list" where
  "collect_type_description_files [] type_description_files = Inr type_description_files"
| "collect_type_description_files (description_tuple # rest) type_description_files =
     (case split_colon description_tuple of
        [a, b] \<Rightarrow> collect_type_description_files rest (AList.update a b type_description_files)
      | _ \<Rightarrow> Inl (Exc AssertionError []))"

fun collect_ros_interface_files ::
  "string list \<Rightarrow> ((string \<times> string) \<times> ppath) list \<Rightarrow> ((string \<times> string) \<times> ppath) list" where
  "collect_ros_interface_files [] ros_interface_files = ros_interface_files"
| "collect_ros_interface_files (ros_interface_file # rest) ros_interface_files =
     (let p = Path ros_interface_file;
          key = (drop 1 (suffix p), stem p)
      in collect_ros_interface_files rest (AList.update key p ros_interface_files))"

text \<open>
  The loop over the mapping's items (lines 117 to 135), inside the \<^verbatim>\<open>try\<close>
  statement of the loop over the IDL files. \<open>generated_files\<close> is the list that the
  function returns in the end.
\<close>

fun expand_mapping ::
  "env \<Rightarrow> nat \<Rightarrow> generator_arguments \<Rightarrow> dict option \<Rightarrow> (string \<Rightarrow> exn + string) option
     \<Rightarrow> ppath \<Rightarrow> real option \<Rightarrow> ppath \<Rightarrow> string \<Rightarrow> pyval \<Rightarrow> pyval \<Rightarrow> ppath
     \<Rightarrow> (string \<times> string) list \<Rightarrow> string list \<Rightarrow> state \<Rightarrow> string list result" where
  "expand_mapping E depth args additional_context post_process_callback template_basepath
       latest_target_timestamp idl_rel_path idl_stem idl_content type_description_info
       type_source_file [] generated_files st = (Inr generated_files, st)"
| "expand_mapping E depth args additional_context post_process_callback template_basepath
       latest_target_timestamp idl_rel_path idl_stem idl_content type_description_info
       type_source_file ((template_file, generated_filename) # rest) generated_files st =
     (case args_output_dir args of
        None \<Rightarrow> (Inl (key_error ''output_dir''), st)
      | Some output_dir \<Rightarrow>
          (case percent_format E generated_filename idl_stem of
             Inl e \<Rightarrow> (Inl e, st)
           | Inr formatted \<Rightarrow>
               (let generated_file =
                      os_path_join output_dir [str (parent idl_rel_path), formatted]
                in case args_package_name args of
                     None \<Rightarrow> (Inl (key_error ''package_name''), st)
                   | Some package_name \<Rightarrow>
                       (let literal =
                              [(''package_name'', PyStr package_name),
                               (''interface_path'', PyPath idl_rel_path),
                               (''content'', idl_content),
                               (''type_description_info'', type_description_info),
                               (''type_source_file'', PyPath type_source_file)];
                            (data, st1) =
                              alloc (case additional_context of
                                       None \<Rightarrow> literal
                                     | Some extra \<Rightarrow>
                                         fold (\<lambda>(k, v). AList.update k v) extra literal) st
                        in case expand_template E depth (os_path_basename template_file) data
                                  generated_file latest_target_timestamp (Some template_basepath)
                                  post_process_callback st1 of
                             (Inl e, st2) \<Rightarrow> (Inl e, st2)
                           | (Inr u, st2) \<Rightarrow>
                               expand_mapping E depth args additional_context
                                 post_process_callback template_basepath latest_target_timestamp
                                 idl_rel_path idl_stem idl_content type_description_info
                                 type_source_file rest (generated_files @ [generated_file]) st2))))"

text \<open>
  The side file of an IDL file (lines 104 to 108): looked up, read and decoded only
  when the dictionary of side files is not empty.
\<close>

definition load_type_description ::
  "env \<Rightarrow> filesystem \<Rightarrow> (string \<times> string) list \<Rightarrow> string \<Rightarrow> exn + pyval" where
  "load_type_description E fs type_description_files rel =
     (if type_description_files \<noteq> []
      then (case map_of type_description_files rel of
              None \<Rightarrow> Inl (key_error rel)
            | Some type_hash_file \<Rightarrow>
                (case read_text fs type_hash_file of
                   Inl e \<Rightarrow> Inl e
                 | Inr f \<Rightarrow> json_load E f))
      else Inr PyNone)"

text \<open>
  One round of the loop over the IDL files (lines 99 to 140). The \<^verbatim>\<open>try\<close>
  statement holds the parser call and the loop over the mapping; its
  \<^verbatim>\<open>except Exception\<close> clause prints the diagnostic and raises the exception again.
\<close>

definition generate_idl ::
  "env \<Rightarrow> nat \<Rightarrow> generator_arguments \<Rightarrow> (string \<times> string) list \<Rightarrow> dict option \<Rightarrow> bool
     \<Rightarrow> (string \<Rightarrow> exn + string) option \<Rightarrow> ppath \<Rightarrow> real option
     \<Rightarrow> (string \<times> string) list \<Rightarrow> ((string \<times> string) \<times> ppath) list
     \<Rightarrow> string \<Rightarrow> string list \<Rightarrow> state \<Rightarrow> string list result" where
  "generate_idl E depth args mapping additional_context keep_case post_process_callback
       template_basepath latest_target_timestamp type_description_files ros_interface_files
       idl_tuple generated_files st =
     (case rsplit_colon idl_tuple of
        [base, rel] \<Rightarrow>
          (let locator = \<lparr>locator_basepath = Path base, locator_relative_path = Path rel\<rparr>;
               idl_rel_path = Path rel
           in case load_type_description E (fsys st) type_description_files rel of
                Inl e \<Rightarrow> (Inl e, st)
              | Inr type_description_info \<Rightarrow>
                  (if length (parts idl_rel_path) < 2
                   then (Inl (Exc IndexError ''tuple index out of range''), st)
                   else
                     (let idl_stem = stem idl_rel_path;
                          type_source_key =
                            (parts idl_rel_path ! (length (parts idl_rel_path) - 2), idl_stem);
                          type_source_file =
                            (case map_of ros_interface_files type_source_key of
                               Some p \<Rightarrow> p
                             | None \<Rightarrow> get_absolute_path locator);
                          idl_stem' =
                            (if keep_case then idl_stem
                             else convert_camel_case_to_lower_case_underscore idl_stem)
                      in case (case parse_idl_file E locator of
                                 Inl e \<Rightarrow> (Inl e, st)
                               | Inr idl_content \<Rightarrow>
                                   expand_mapping E depth args additional_context
                                     post_process_callback template_basepath
                                     latest_target_timestamp idl_rel_path idl_stem' idl_content
                                     type_description_info type_source_file mapping
                                     generated_files st) of
                           (Inl e, st') \<Rightarrow>
                             (Inl e,
                              if is_Exception e
                              then print_stderr (''Error processing idl file: ''
                                     @ str (get_absolute_path locator)) st'
                              else st')
                         | (Inr generated_files', st') \<Rightarrow> (Inr generated_files', st'))))
      | _ \<Rightarrow> (Inl (Exc AssertionError []), st))"

fun generate_idls ::
  "env \<Rightarrow> nat \<Rightarrow> generator_arguments \<Rightarrow> (string \<times> string) list \<Rightarrow> dict option \<Rightarrow> bool
     \<Rightarrow> (string \<Rightarrow> exn + string) option \<Rightarrow> ppath \<Rightarrow> real option
     \<Rightarrow> (string \<times> string) list \<Rightarrow> ((string \<times> string) \<times> ppath) list
     \<Rightarrow> string list \<Rightarrow> string list \<Rightarrow> state \<Rightarrow> string list result" where
  "generate_idls E depth args mapping additional_context keep_case post_process_callback
       template_basepath latest_target_timestamp type_description_files ros_interface_files
       [] generated_files st = (Inr generated_files, st)"
| "generate_idls E depth args mapping additional_context keep_case post_process_callback
       template_basepath latest_target_timestamp type_description_files ros_interface_files
       (idl_tuple # rest) generated_files st =
     (case generate_idl E depth args mapping additional_context keep_case post_process_callback
             template_basepath latest_target_timestamp type_description_files
             ros_interface_files idl_tuple generated_files st of
        (Inl e, st') \<Rightarrow> (Inl e, st')
      | (Inr generated_files', st') \<Rightarrow>
          generate_idls E depth args mapping additional_context keep_case post_process_callback
            template_basepath latest_target_timestamp type_description_files
            ros_interface_files rest generated_files' st')"

text \<open>\<^verbatim>\<open>generate_files\<close>. The mapping is the list of the dictionary's items in order.\<close>

definition generate_files ::
  "env \<Rightarrow> nat \<Rightarrow> string \<Rightarrow> (string \<times> string) list \<Rightarrow> dict option \<Rightarrow> bool
     \<Rightarrow> (string \<Rightarrow> exn + string) option \<Rightarrow> state \<Rightarrow> string list result" where
  "generate_files E depth generator_arguments_file mapping additional_context keep_case
       post_process_callback st =
     (case read_generator_arguments E (fsys st) generator_arguments_file of
        Inl e \<Rightarrow> (Inl e, st)
      | Inr args \<Rightarrow>
          (case args_template_dir args of
             None \<Rightarrow> (Inl (key_error ''template_dir''), st)
           | Some template_dir \<Rightarrow>
               (let template_basepath = Path template_dir
                in case assert_templates_exist (fsys st) template_basepath (map fst mapping) of
                     Some e \<Rightarrow> (Inl e, st)
                   | None \<Rightarrow>
                       (case args_target_dependencies args of
                          None \<Rightarrow> (Inl (key_error ''target_dependencies''), st)
                        | Some target_dependencies \<Rightarrow>
                            (case get_newest_modification_time (fsys st) target_dependencies of
                               Inl e \<Rightarrow> (Inl e, st)
                             | Inr latest_target_timestamp \<Rightarrow>
                                 (case collect_type_description_files
                                         (case args_type_description_tuples args of
                                            None \<Rightarrow> [] | Some ts \<Rightarrow> ts) [] of
                                    Inl e \<Rightarrow> (Inl e, st)
                                  | Inr type_description_files \<Rightarrow>
                                      generate_idls E depth args mapping additional_context
                                        keep_case post_process_callback template_basepath
                                        latest_target_timestamp type_description_files
                                        (collect_ros_interface_files
                                           (case args_ros_interface_files args of
                                              None \<Rightarrow> [] | Some fs \<Rightarrow> fs) [])
                                        (case args_idl_tuples args of
                                           None \<Rightarrow> [] | Some ts \<Rightarrow> ts)
                                        [] st))))))"

text \<open>A file system with two dependency files, for concrete runs of the oracle.\<close>

definition deps_fs :: filesystem where
  "deps_fs = \<lparr>files = [''a.cmake'' \<mapsto> File ''A'' 1, ''b.cmake'' \<mapsto> File ''B'' 5], dirs = {}\<rparr>"

subsection \<open>A concrete environment\<close>

text \<open>
  For concrete runs: a toy template engine whose templates are directives separated by
  semicolons (\<^verbatim>\<open>@include name\<close> calls \<^verbatim>\<open>TEMPLATE\<close>, \<^verbatim>\<open>@set k\<close> assigns a local,
  \<^verbatim>\<open>@raise\<close> raises a \<open>ValueError\<close>, \<^verbatim>\<open>@exit\<close> raises \<open>SystemExit\<close>, anything else
  is copied to the output), a formatter that fills the first \<^verbatim>\<open>%s\<close>, and a file
  tree with templates under \<^verbatim>\<open>/t\<close> and \<^verbatim>\<open>/u\<close> and two generated files.
\<close>

definition demo_directive :: "string \<Rightarrow> action" where
  "demo_directive line =
     (if take 9 line = ''@include '' then Include (drop 9 line) []
      else if take 5 line = ''@set '' then Assign (drop 5 line) (PyBool True)
      else if line = ''@raise'' then Raise (Exc (OtherException ''ValueError'') ''bad value'')
      else if line = ''@exit'' then Raise (Exc SystemExit ''1'')
      else Emit line)"

definition demo_string :: "string \<Rightarrow> dict \<Rightarrow> action list" where
  "demo_string content locals = map demo_directive (split_on CHR '';'' content)"

fun demo_format :: "string \<Rightarrow> string \<Rightarrow> string" where
  "demo_format (a # b # rest) s =
     (if a = CHR ''%'' \<and> b = CHR ''s'' then s @ rest else a # demo_format (b # rest) s)"
| "demo_format p s = p"

definition demo_args :: generator_arguments where
  "demo_args = \<lparr>args_template_dir = Some ''/t'', args_output_dir = Some ''/out'',
     args_package_name = Some ''pkg'', args_target_dependencies = Some [''/t/ok.em''],
     args_type_description_tuples = None, args_ros_interface_files = None,
     args_idl_tuples = Some [''/pkg:msg/Point.idl'']\<rparr>"

definition demo_env :: env where
  "demo_env = \<lparr>em_Interpreter = None, em_invoke = (\<lambda>h. None), em_string = demo_string,
     parse_idl_file = (\<lambda>l. Inr (PyObj 0)), json_load = (\<lambda>s. Inr (PyObj 1)),
     json_load_arguments = (\<lambda>s. Inr demo_args),
     percent_format = (\<lambda>p s. Inr (demo_format p s))\<rparr>"

definition demo_state :: state where
  "demo_state = \<lparr>fsys = \<lparr>files =
        [''/t/ok.em'' \<mapsto> File ''hello'' 1,
         ''/t/bad.em'' \<mapsto> File ''partial;@raise'' 1,
         ''/t/outer.em'' \<mapsto> File ''head;@include sub/inner.em;tail'' 1,
         ''/t/sub/inner.em'' \<mapsto> File ''inner;@include leaf.em'' 1,
         ''/t/sub/leaf.em'' \<mapsto> File ''leaf'' 1,
         ''/t/loop.em'' \<mapsto> File ''x;@include loop.em'' 1,
         ''/t/set.em'' \<mapsto> File ''@set package_name;hello'' 1,
         ''/u/ok.em'' \<mapsto> File ''other'' 1,
         ''/args.json'' \<mapsto> File ''{}'' 1,
         ''/out/same.h'' \<mapsto> File ''hello'' 5,
         ''/out/stale.h'' \<mapsto> File ''old'' 5],
       dirs = {''/'', ''/t'', ''/t/sub'', ''/u'', ''/out''}\<rparr>,
     now = 9, template_prefix_path = [], interpreter = None,
     heap = [[(''package_name'', PyStr ''pkg'')]], stderr = []\<rparr>"



subsection \<open>What rendering may change\<close>

text \<open>
  The relation between the state before and after a piece of rendering with locals at
  heap index \<open>l\<close>: files, clock and search path are the same, the heap has grown and
  its old dictionaries other than \<open>l\<close> are the same, an interpreter is still there,
  and output and diagnostics have only been added to.
\<close>

definition rendering_frame :: "nat \<Rightarrow> state \<Rightarrow> state \<Rightarrow> bool" where
  "rendering_frame l st st' \<longleftrightarrow>
     fsys st' = fsys st \<and> now st' = now st
     \<and> template_prefix_path st' = template_prefix_path st
     \<and> length (heap st) \<le> length (heap st')
     \<and> (\<forall>a < length (heap st). a \<noteq> l \<longrightarrow> heap st' ! a = heap st ! a)
     \<and> (interpreter st \<noteq> None \<longrightarrow> interpreter st' \<noteq> None)
     \<and> (\<exists>out. getvalue st' = getvalue st @ out)
     \<and> (\<exists>lines. stderr st' = stderr st @ lines)"

section \<open>Properties of the naming normalizer\<close>








section \<open>Properties of the staleness oracle\<close>

lemma newest_loop_all_exist:
  "\<forall>d \<in> set deps. files fs d \<noteq> None \<Longrightarrow>
   newest_loop fs deps acc =
     Inr (case acc of
            None \<Rightarrow> if deps = [] then None else Some (Max (mtime_of fs ` set deps))
          | Some a \<Rightarrow> Some (Max (insert a (mtime_of fs ` set deps))))"
proof (induction deps arbitrary: acc)
  case Nil
  then show ?case by (simp split: option.splits)
next
  case (Cons d deps)
  from Cons.prems obtain f where f: "files fs d = Some f"
    by auto
  from Cons.prems have rest: "\<forall>d \<in> set deps. files fs d \<noteq> None"
    by simp
  have mt: "mtime_of fs d = mtime f"
    using f by (simp add: mtime_of_def)
  show ?case
  proof (cases acc)
    case None
    then show ?thesis
      using f mt Cons.IH [OF rest, of "Some (mtime f)"]
      by (simp add: os_path_getmtime_def)
  next
    case (Some a)
    show ?thesis
    proof (cases "mtime f > a")
      case True
      define X where "X = insert (mtime f) (mtime_of fs ` set deps)"
      have fin: "finite X" and ne: "X \<noteq> {}"
        by (simp_all add: X_def)
      have ge: "mtime f \<le> Max X"
        by (rule Max_ge) (simp_all add: X_def)
      have "Max (insert a X) = max a (Max X)"
        using fin ne by (rule Max_insert)
      also have "\<dots> = Max X"
        using True ge by (simp add: max_def)
      finally have "Max (insert a (insert (mtime f) (mtime_of fs ` set deps)))
            = Max (insert (mtime f) (mtime_of fs ` set deps))"
        unfolding X_def .
      then show ?thesis
        using Some True f mt Cons.IH [OF rest, of "Some (mtime f)"]
        by (simp add: os_path_getmtime_def)
    next
      case False
      from False have "Max (insert a (insert (mtime f) (mtime_of fs ` set deps)))
            = Max (insert a (mtime_of fs ` set deps))"
        by (cases "set deps = {}") (auto simp: max_def)
      then show ?thesis
        using Some False f mt Cons.IH [OF rest, of "Some a"]
        by (simp add: os_path_getmtime_def)
    qed
  qed
qed

lemma newest_loop_missing:
  "\<exists>d \<in> set deps. files fs d = None \<Longrightarrow>
   \<exists>d \<in> set deps. files fs d = None \<and> newest_loop fs deps acc = Inl (file_not_found d)"
proof (induction deps arbitrary: acc)
  case Nil
  then show ?case by simp
next
  case (Cons d deps)
  show ?case
  proof (cases "files fs d")
    case None
    then show ?thesis
      by (simp add: os_path_getmtime_def)
  next
    case (Some f)
    with Cons.prems have "\<exists>d \<in> set deps. files fs d = None"
      by auto
    from Cons.IH [OF this] Some show ?thesis
      by (simp add: os_path_getmtime_def)
  qed
qed

text \<open>
  C7. \<^verbatim>\<open>get_newest_modification_time\<close> returns \<^verbatim>\<open>None\<close> for the empty list; for a
  non-empty list of existing files it returns the largest of their modification times;
  for a single existing file it returns that file's modification time; and when some
  listed file is missing it raises the \<open>FileNotFoundError\<close> (an \<open>OSError\<close>, which
  \<open>IOError\<close> names too) of a missing file instead of skipping it.
\<close>

theorem get_newest_modification_time_spec:
  "get_newest_modification_time fs [] = Inr None
   \<and> (deps \<noteq> [] \<and> (\<forall>d \<in> set deps. os_path_exists fs d) \<longrightarrow>
        get_newest_modification_time fs deps = Inr (Some (Max (mtime_of fs ` set deps))))
   \<and> (os_path_exists fs f \<longrightarrow>
        get_newest_modification_time fs [f] = Inr (Some (mtime_of fs f)))
   \<and> ((\<exists>d \<in> set deps. \<not> os_path_exists fs d) \<longrightarrow>
        (\<exists>d \<in> set deps. \<not> os_path_exists fs d
           \<and> get_newest_modification_time fs deps = Inl (file_not_found d)
           \<and> is_OSError (file_not_found d)))"
proof (intro conjI impI)
  show "get_newest_modification_time fs [] = Inr None"
    by (simp add: get_newest_modification_time_def)
next
  assume a: "deps \<noteq> [] \<and> (\<forall>d \<in> set deps. os_path_exists fs d)"
  then have "\<forall>d \<in> set deps. files fs d \<noteq> None"
    by (simp add: os_path_exists_def)
  from newest_loop_all_exist [OF this, of None] a
  show "get_newest_modification_time fs deps = Inr (Some (Max (mtime_of fs ` set deps)))"
    by (simp add: get_newest_modification_time_def)
next
  assume "os_path_exists fs f"
  then have "\<forall>d \<in> set [f]. files fs d \<noteq> None"
    by (simp add: os_path_exists_def)
  from newest_loop_all_exist [OF this, of None]
  show "get_newest_modification_time fs [f] = Inr (Some (mtime_of fs f))"
    by (simp add: get_newest_modification_time_def)
next
  assume "\<exists>d \<in> set deps. \<not> os_path_exists fs d"
  then have "\<exists>d \<in> set deps. files fs d = None"
    by (simp add: os_path_exists_def)
  from newest_loop_missing [OF this, of None]
  show "\<exists>d \<in> set deps. \<not> os_path_exists fs d
          \<and> get_newest_modification_time fs deps = Inl (file_not_found d)
          \<and> is_OSError (file_not_found d)"
    by (auto simp: get_newest_modification_time_def os_path_exists_def file_not_found_def)
qed

theorem get_newest_modification_time_witness:
  "os_path_exists deps_fs ''a.cmake'' \<and> os_path_exists deps_fs ''b.cmake''
   \<and> \<not> os_path_exists deps_fs ''gone.cmake''
   \<and> get_newest_modification_time deps_fs [''a.cmake'', ''b.cmake''] = Inr (Some 5)
   \<and> get_newest_modification_time deps_fs [''a.cmake''] = Inr (Some 1)
   \<and> get_newest_modification_time deps_fs [''a.cmake'', ''gone.cmake'']
       = Inl (file_not_found ''gone.cmake'')"
proof -
  have a: "os_path_exists deps_fs ''a.cmake''" and b: "os_path_exists deps_fs ''b.cmake''"
    and g: "\<not> os_path_exists deps_fs ''gone.cmake''"
    by (simp_all add: os_path_exists_def deps_fs_def)
  have ma: "mtime_of deps_fs ''a.cmake'' = 1" and mb: "mtime_of deps_fs ''b.cmake'' = 5"
    by (simp_all add: mtime_of_def deps_fs_def)
  have all: "[''a.cmake'', ''b.cmake''] \<noteq> []
      \<and> (\<forall>d \<in> set [''a.cmake'', ''b.cmake'']. os_path_exists deps_fs d)"
    using a b by simp
  have some: "\<exists>d \<in> set [''a.cmake'', ''gone.cmake'']. \<not> os_path_exists deps_fs d"
    using g by simp
  note spec2 = get_newest_modification_time_spec [of deps_fs "[''a.cmake'', ''b.cmake'']" "''a.cmake''"]
  note spec3 = get_newest_modification_time_spec [of deps_fs "[''a.cmake'', ''gone.cmake'']" "''a.cmake''"]
  from spec2 all have "get_newest_modification_time deps_fs [''a.cmake'', ''b.cmake'']
      = Inr (Some (Max (mtime_of deps_fs ` set [''a.cmake'', ''b.cmake''])))"
    by blast
  then have two: "get_newest_modification_time deps_fs [''a.cmake'', ''b.cmake''] = Inr (Some 5)"
    by (simp add: ma mb)
  from spec2 a have one: "get_newest_modification_time deps_fs [''a.cmake''] = Inr (Some 1)"
    by (simp add: ma)
  from spec3 some obtain d where d: "d \<in> set [''a.cmake'', ''gone.cmake'']"
      "\<not> os_path_exists deps_fs d"
      "get_newest_modification_time deps_fs [''a.cmake'', ''gone.cmake''] = Inl (file_not_found d)"
    by blast
  from d(1,2) a have "d = ''gone.cmake''"
    by auto
  with d(3) have gone: "get_newest_modification_time deps_fs [''a.cmake'', ''gone.cmake'']
      = Inl (file_not_found ''gone.cmake'')"
    by simp
  from a b g two one gone show ?thesis
    by simp
qed

section \<open>Properties of rendering and nested inclusion\<close>

lemma frame_refl: "rendering_frame l st st"
  by (simp add: rendering_frame_def)

lemma frame_trans:
  assumes "rendering_frame l st st1" and "rendering_frame l' st1 st2"
    and "l' = l \<or> length (heap st) \<le> l'"
  shows "rendering_frame l st st2"
  using assms unfolding rendering_frame_def
  by (auto simp: less_le_trans)

lemma frame_write_output: "rendering_frame l st (write_output s st)"
  by (cases "interpreter st") (simp_all add: rendering_frame_def write_output_def getvalue_def)

lemma frame_dict_set: "rendering_frame l st (dict_set l k v st)"
  by (simp add: rendering_frame_def dict_set_def getvalue_def)

lemma frame_print_stderr: "rendering_frame l st (print_stderr x st)"
  by (simp add: rendering_frame_def print_stderr_def getvalue_def)

lemma frame_alloc_helper:
  "alloc kw st = (k, st1) \<Longrightarrow>
   k = length (heap st) \<and> rendering_frame l st (priv_add_helper_functions k st1)"
  by (auto simp: rendering_frame_def alloc_def priv_add_helper_functions_def dict_set_def
      getvalue_def nth_append)

lemma frame_both:
  shows "run_actions E depth l acts st = (r, st') \<Longrightarrow> rendering_frame l st st'"
    and "priv_expand_template E depth template_name kwargs st = (r, st')
         \<Longrightarrow> rendering_frame (length (heap st)) st st'"
proof (induction E depth l acts st and E depth template_name kwargs st arbitrary: r st' and r st'
    rule: run_actions_priv_expand_template.induct)
  case (1 E depth l st)
  then show ?case by (simp add: frame_refl)
next
  case (2 E depth l s acts st)
  from 2 have "rendering_frame l (write_output s st) st'" by simp
  with frame_write_output [of l st s] show ?case
    by (rule frame_trans) simp
next
  case (3 E depth l k v acts st)
  from 3 have "rendering_frame l (dict_set l k v st) st'" by simp
  with frame_dict_set [of l st k v] show ?case
    by (rule frame_trans) simp
next
  case (4 E depth l e acts st)
  then show ?case by (simp add: frame_refl)
next
  case (5 E depth l template_name kwargs acts st)
  show ?case
  proof (cases "map_of (heap st ! l) ''TEMPLATE''")
    case None
    with 5(3) show ?thesis by (simp add: frame_refl)
  next
    case (Some v)
    show ?thesis
    proof (cases "v = PyExpandTemplate")
      case False
      with Some 5(3) show ?thesis
        by (cases v) (simp_all add: frame_refl)
    next
      case True
      obtain r1 st1 where call: "priv_expand_template E depth template_name kwargs st = (r1, st1)"
        by (cases "priv_expand_template E depth template_name kwargs st")
      from 5(1) [OF Some True call] have f1: "rendering_frame (length (heap st)) st st1" .
      then have f1': "rendering_frame l st st1"
        by (auto simp: rendering_frame_def)
      show ?thesis
      proof (cases r1)
        case (Inl e)
        with Some True call 5(3) f1' show ?thesis by simp
      next
        case (Inr u)
        with Some True call 5(3) have "run_actions E depth l acts st1 = (r, st')"
          by simp
        from 5(2) [OF Some True call [symmetric] _ this] Inr
        have "rendering_frame l st1 st'" by simp
        with f1' show ?thesis
          by (rule frame_trans) simp
      qed
    qed
  qed
next
  case (6 E template_name kwargs st)
  then show ?case by (simp add: frame_refl)
next
  case (7 E depth template_name kwargs st)
  note IH = 7(1) and run = 7(2)
  show ?case
  proof (cases "get_template_path st template_name")
    case (Inl e)
    with run show ?thesis by (simp add: frame_refl)
  next
    case (Inr tp)
    obtain k st1 where al: "alloc kwargs st = (k, st1)"
      by (cases "alloc kwargs st")
    define st2 where "st2 = priv_add_helper_functions k st1"
    from frame_alloc_helper [OF al, of "length (heap st)"]
    have k: "k = length (heap st)" and f2: "rendering_frame (length (heap st)) st st2"
      unfolding st2_def by blast+
    show ?thesis
    proof (cases "interpreter st2 = None")
      case True
      with run Inr al f2 show ?thesis
        by (auto simp: st2_def Let_def)
    next
      case live: False
      show ?thesis
      proof (cases "read_text (fsys st2) (str tp)")
        case (Inl e)
        with run Inr al live f2 show ?thesis
          by (auto simp: st2_def Let_def)
      next
        case rd: (Inr content)
        show ?thesis
        proof (cases "em_invoke E ''beforeInclude''")
          case (Some e)
          with run Inr al live rd f2 show ?thesis
            by (auto simp: st2_def Let_def)
        next
          case None
          obtain r3 st3 where
            ra: "run_actions E depth k (em_string E content (heap st2 ! k)) st2 = (r3, st3)"
            by (cases "run_actions E depth k (em_string E content (heap st2 ! k)) st2")
          from IH [OF Inr al [symmetric] refl st2_def live rd None ra]
          have "rendering_frame k st2 st3" .
          with f2 have f3: "rendering_frame (length (heap st)) st st3"
            by (rule frame_trans) (simp add: k)
          show ?thesis
          proof (cases r3)
            case (Inl e)
            have "rendering_frame (length (heap st)) st
                (print_stderr (class_name (cls e) @ '' in template '' @ quoted (str tp)
                   @ '': '' @ msg e) st3)"
              using frame_trans [OF f3 frame_print_stderr [of "length (heap st)"]] by simp
            with run Inr al live rd None ra Inl f3 show ?thesis
              by (auto simp: st2_def Let_def split: if_splits)
          next
            case (Inr u)
            with run \<open>get_template_path st template_name = Inr tp\<close> al live rd None ra f3
            show ?thesis
              by (cases "em_invoke E ''afterInclude''") (auto simp: st2_def Let_def)
          qed
        qed
      qed
    qed
  qed
qed

section \<open>Properties of the template expander\<close>

lemma copy_data_facts:
  assumes "copy_data data st = (l, st4)"
  shows "l = length (heap st)"
    and "heap st4 = heap st @ [AList.update ''TEMPLATE'' PyExpandTemplate (heap st ! data)]"
    and "template_prefix_path st4 = template_prefix_path st"
    and "fsys st4 = fsys st" and "stderr st4 = stderr st" and "now st4 = now st"
    and "interpreter st4 = Some \<lparr>sink = [], shut_down = False\<rparr>"
  using assms
  by (auto simp: copy_data_def alloc_def priv_add_helper_functions_def dict_set_def Let_def)

lemma expand_template_try_frame:
  assumes "expand_template_try E depth tp l st = (r, st')"
  shows "rendering_frame l st st'"
proof (cases "read_text (fsys st) (str tp)")
  case (Inl e)
  with assms show ?thesis by (simp add: expand_template_try_def frame_refl)
next
  case rd: (Inr content)
  show ?thesis
  proof (cases "em_invoke E ''beforeFile''")
    case (Some e)
    with assms rd show ?thesis by (simp add: expand_template_try_def frame_refl)
  next
    case None
    obtain r1 st1 where ra: "run_actions E depth l (em_string E content (heap st ! l)) st = (r1, st1)"
      by (cases "run_actions E depth l (em_string E content (heap st ! l)) st")
    from frame_both(1) [OF ra] have f: "rendering_frame l st st1" .
    from assms rd None ra have "st' = st1"
      by (auto simp: expand_template_try_def split: sum.splits option.splits)
    with f show ?thesis by simp
  qed
qed

lemma expand_template_except_facts:
  assumes "expand_template_except e n out st = (r, st')"
  shows "r = Inl e" and "files (fsys st') out = None"
    and "\<And>p. p \<noteq> out \<Longrightarrow> files (fsys st') p = files (fsys st) p"
    and "dirs (fsys st') = dirs (fsys st)"
    and "stderr st' = stderr st @ [class_name (cls e) @ '' when expanding '' @ quoted n
            @ '' into '' @ quoted out @ '': '' @ msg e]"
    and "heap st' = heap st" and "template_prefix_path st' = template_prefix_path st"
    and "now st' = now st"
  using assms
  by (auto simp: expand_template_except_def os_path_exists_def os_remove_def print_stderr_def
      split: if_splits option.splits)

lemma write_if_necessary_frame:
  assumes "write_if_necessary out mt c st = (r, st')"
  shows "heap st' = heap st" and "template_prefix_path st' = template_prefix_path st"
    and "stderr st' = stderr st" and "interpreter st' = interpreter st"
    and "now st' = now st"
  using assms
  by (auto simp: write_if_necessary_def write_text_def os_makedirs_def os_path_getmtime_def
      read_text_def split: if_splits option.splits sum.splits prod.splits)


lemma expand_template_lookup_fails:
  assumes "legacy_api bp0 n0 = (b, n)"
    and "get_template_path (push_template_prefix_path b st) n = Inl e"
  shows "expand_template E depth n0 data out mt bp0 pp st = (Inl e, push_template_prefix_path b st)"
  using assms by (simp add: expand_template_def Let_def)

lemma expand_template_constructor_fails:
  assumes "legacy_api bp0 n0 = (b, n)"
    and "get_template_path (push_template_prefix_path b st) n = Inr tp"
    and "em_Interpreter E = Some e"
  shows "expand_template E depth n0 data out mt bp0 pp st = (Inl e, push_template_prefix_path b st)"
  using assms by (simp add: expand_template_def Let_def)

lemma expand_template_try_raises:
  assumes "legacy_api bp0 n0 = (b, n)"
    and "get_template_path (push_template_prefix_path b st) n = Inr tp"
    and "em_Interpreter E = None"
    and "copy_data data (push_template_prefix_path b st) = (l, st4)"
    and "expand_template_try E depth tp l st4 = (Inl e, st5)"
  shows "expand_template E depth n0 data out mt bp0 pp st =
     (if is_Exception e
      then (fst (expand_template_except e n out st5),
            pop_template_prefix_path (snd (expand_template_except e n out st5)))
      else (Inl e, pop_template_prefix_path st5))"
  using assms by (simp add: expand_template_def Let_def split: prod.splits)

lemma getvalue_pop: "getvalue (pop_template_prefix_path st) = getvalue st"
  by (simp add: getvalue_def pop_template_prefix_path_def)

lemma expand_template_try_returns:
  assumes "legacy_api bp0 n0 = (b, n)"
    and "get_template_path (push_template_prefix_path b st) n = Inr tp"
    and "em_Interpreter E = None"
    and "copy_data data (push_template_prefix_path b st) = (l, st4)"
    and "expand_template_try E depth tp l st4 = (Inr u, st5)"
  shows "expand_template E depth n0 data out mt bp0 pp st =
     (case pp of
        None \<Rightarrow> write_if_necessary out mt (getvalue st5) (shutdown (pop_template_prefix_path st5))
      | Some callback \<Rightarrow>
          (case callback (getvalue st5) of
             Inl e \<Rightarrow> (Inl e, shutdown (pop_template_prefix_path st5))
           | Inr c \<Rightarrow> write_if_necessary out mt c (shutdown (pop_template_prefix_path st5))))"
  using assms
  by (simp add: expand_template_def Let_def getvalue_pop split: option.split)



lemma expand_template_effect:
  assumes run: "expand_template E depth n0 data out mt bp0 pp st = (r, st')"
  shows "length (heap st) \<le> length (heap st')
     \<and> (\<forall>a < length (heap st). heap st' ! a = heap st ! a)
     \<and> (\<exists>printed. stderr st' = stderr st @ printed)
     \<and> now st' = now st"
proof -
  obtain b n where la: "legacy_api bp0 n0 = (b, n)"
    by (cases "legacy_api bp0 n0")
  let ?st1 = "push_template_prefix_path b st"
  have st1: "heap ?st1 = heap st" "stderr ?st1 = stderr st" "now ?st1 = now st"
    by (simp_all add: push_template_prefix_path_def)
  show ?thesis
  proof (cases "get_template_path ?st1 n")
    case (Inl e)
    from expand_template_lookup_fails [OF la Inl] run st1 show ?thesis by auto
  next
    case (Inr tp)
    show ?thesis
    proof (cases "em_Interpreter E")
      case (Some e)
      from expand_template_constructor_fails [OF la Inr Some] run st1 show ?thesis by auto
    next
      case None
      obtain l st4 where cd: "copy_data data ?st1 = (l, st4)"
        by (cases "copy_data data ?st1")
      note c = copy_data_facts [OF cd]
      obtain r5 st5 where tr: "expand_template_try E depth tp l st4 = (r5, st5)"
        by (cases "expand_template_try E depth tp l st4")
      from expand_template_try_frame [OF tr]
      have f: "rendering_frame l st4 st5" .
      have h5: "length (heap st) \<le> length (heap st5)
          \<and> (\<forall>a < length (heap st). heap st5 ! a = heap st ! a)"
        using f c(1,2) st1 by (auto simp: rendering_frame_def nth_append)
      from f obtain printed where p5: "stderr st5 = stderr st @ printed"
        using c(5) st1 by (auto simp: rendering_frame_def)
      have n5: "now st5 = now st"
        using f c(6) st1 by (simp add: rendering_frame_def)
      show ?thesis
      proof (cases r5)
        case (Inl e)
        obtain r6 st6 where ex: "expand_template_except e n out st5 = (r6, st6)"
          by (cases "expand_template_except e n out st5")
        note x = expand_template_except_facts [OF ex]
        have n6: "now st6 = now st5"
          by (rule x(8))
        from expand_template_try_raises [OF la Inr None cd tr [unfolded Inl]] run ex
        have "st' = pop_template_prefix_path st6 \<or> st' = pop_template_prefix_path st5"
          by (auto split: if_splits)
        then show ?thesis
          using h5 p5 n5 n6 x(5,6) by (auto simp: pop_template_prefix_path_def)
      next
        case (Inr u)
        let ?st7 = "shutdown (pop_template_prefix_path st5)"
        have s7: "heap ?st7 = heap st5" "stderr ?st7 = stderr st5" "now ?st7 = now st5"
          by (simp_all add: shutdown_def pop_template_prefix_path_def)
        have w: "heap st'' = heap st5 \<and> stderr st'' = stderr st5 \<and> now st'' = now st5"
          if "write_if_necessary out mt c ?st7 = (r, st'')" for c r st''
          using write_if_necessary_frame(1,3,5) [OF that] s7 by simp
        note ret = expand_template_try_returns [OF la \<open>get_template_path ?st1 n = Inr tp\<close>
            None cd tr [unfolded Inr], of out mt pp]
        have "heap st' = heap st5 \<and> stderr st' = stderr st5 \<and> now st' = now st5"
        proof (cases pp)
          case None
          with ret run w show ?thesis
            by simp
        next
          case (Some callback)
          with ret run w s7 show ?thesis
            by (cases "callback (getvalue st5)") auto
        qed
        then show ?thesis
          using h5 p5 n5 by auto
      qed
    qed
  qed
qed

text \<open>
  C10. \<^verbatim>\<open>expand_template\<close> never changes the caller's dictionary: the dictionary at
  the caller's heap index holds the same items after the call, however the call ends.
  The copy is a new object, and \<^verbatim>\<open>TEMPLATE\<close> is added to the copy only.
\<close>

theorem expand_template_never_mutates_data:
  assumes "data < length (heap st)"
  shows "heap (snd (expand_template E depth template_name data output_file minimum_timestamp
                       template_basepath post_process_callback st)) ! data = heap st ! data
     \<and> (case copy_data data st of
          (l, st4) \<Rightarrow> l \<noteq> data \<and> heap st4 ! data = heap st ! data
            \<and> heap st4 ! l = AList.update ''TEMPLATE'' PyExpandTemplate (heap st ! data))"
proof -
  obtain r st' where run: "expand_template E depth template_name data output_file
      minimum_timestamp template_basepath post_process_callback st = (r, st')"
    by (cases "expand_template E depth template_name data output_file
      minimum_timestamp template_basepath post_process_callback st")
  from expand_template_effect [OF run] assms have "heap st' ! data = heap st ! data"
    by blast
  moreover obtain l st4 where cd: "copy_data data st = (l, st4)"
    by (cases "copy_data data st")
  moreover from copy_data_facts(1,2) [OF cd] assms
  have "l \<noteq> data \<and> heap st4 ! data = heap st ! data
      \<and> heap st4 ! l = AList.update ''TEMPLATE'' PyExpandTemplate (heap st ! data)"
    by (simp add: nth_append)
  ultimately show ?thesis
    using run by simp
qed

theorem expand_template_never_mutates_data_witness:
  "0 < length (heap demo_state)
   \<and> heap (snd (expand_template demo_env 3 ''set.em'' 0 ''/out/set.h'' None (Some (Path ''/t''))
                  None demo_state)) ! 0 = [(''package_name'', PyStr ''pkg'')]
   \<and> heap (snd (expand_template demo_env 3 ''set.em'' 0 ''/out/set.h'' None (Some (Path ''/t''))
                  None demo_state)) ! 1
       = [(''package_name'', PyBool True), (''TEMPLATE'', PyExpandTemplate)]"
proof -
  have live: "0 < length (heap demo_state)"
    by (simp add: demo_state_def)
  from expand_template_never_mutates_data [OF live, of demo_env 3 "''set.em''" "''/out/set.h''"
      None "Some (Path ''/t'')" None]
  have "heap (snd (expand_template demo_env 3 ''set.em'' 0 ''/out/set.h'' None
      (Some (Path ''/t'')) None demo_state)) ! 0 = heap demo_state ! 0"
    by blast
  moreover have "heap demo_state ! 0 = [(''package_name'', PyStr ''pkg'')]"
    by (simp add: demo_state_def)
  moreover have "heap (snd (expand_template demo_env 3 ''set.em'' 0 ''/out/set.h'' None
      (Some (Path ''/t'')) None demo_state)) ! 1
       = [(''package_name'', PyBool True), (''TEMPLATE'', PyExpandTemplate)]"
    by code_simp
  ultimately show ?thesis
    using live by simp
qed

lemma expand_template_restores_search_path:
  assumes la: "legacy_api bp0 n0 = (b, n)"
    and lk: "get_template_path (push_template_prefix_path b st) n = Inr tp"
    and co: "em_Interpreter E = None"
  shows "template_prefix_path (snd (expand_template E depth n0 data out mt bp0 pp st))
           = template_prefix_path st"
proof -
  let ?st1 = "push_template_prefix_path b st"
  obtain l st4 where cd: "copy_data data ?st1 = (l, st4)"
    by (cases "copy_data data ?st1")
  obtain r5 st5 where tr: "expand_template_try E depth tp l st4 = (r5, st5)"
    by (cases "expand_template_try E depth tp l st4")
  from expand_template_try_frame [OF tr] copy_data_facts(3) [OF cd]
  have t5: "template_prefix_path st5 = template_prefix_path st @ [b]"
    by (simp add: rendering_frame_def push_template_prefix_path_def)
  show ?thesis
  proof (cases r5)
    case (Inl e)
    obtain r6 st6 where ex: "expand_template_except e n out st5 = (r6, st6)"
      by (cases "expand_template_except e n out st5")
    from expand_template_try_raises [OF la lk co cd tr [unfolded Inl]] ex
      expand_template_except_facts(7) [OF ex] t5
    show ?thesis
      by (simp add: pop_template_prefix_path_def)
  next
    case (Inr u)
    let ?st7 = "shutdown (pop_template_prefix_path st5)"
    have t7: "template_prefix_path ?st7 = template_prefix_path st"
      using t5 by (simp add: shutdown_def pop_template_prefix_path_def)
    have w: "\<And>c. template_prefix_path (snd (write_if_necessary out mt c ?st7))
        = template_prefix_path st"
      using write_if_necessary_frame(2) [OF surjective_pairing] t7 by simp
    from expand_template_try_returns [OF la lk co cd tr [unfolded Inr]] w t7
    show ?thesis
      by (simp split: option.splits sum.splits)
  qed
qed

text \<open>
  C3. The directory pushed on entry is not popped on every exit path. With no template
  \<^verbatim>\<open>missing.em\<close> under \<^verbatim>\<open>/t\<close>, the call raises the lookup's \<open>RuntimeError\<close> and
  returns with \<^verbatim>\<open>/t\<close> still on the search path, which was empty before the call:
  the push and the lookup stand before the \<^verbatim>\<open>try\<close> statement whose \<^verbatim>\<open>finally\<close>
  clause pops.
\<close>

theorem expand_template_lookup_failure_keeps_push:
  "template_prefix_path demo_state = []
   \<and> expand_template demo_env 3 ''missing.em'' 0 ''/out/stale.h'' None (Some (Path ''/t'')) None
        demo_state
       = (Inl (template_not_found ''missing.em''),
          demo_state\<lparr>template_prefix_path := [Path ''/t'']\<rparr>)"
proof -
  have empty: "template_prefix_path demo_state = []"
    by (simp add: demo_state_def)
  have la: "legacy_api (Some (Path ''/t'')) ''missing.em'' = (Path ''/t'', ''missing.em'')"
    by (simp add: legacy_api_def)
  have "get_template_path (push_template_prefix_path (Path ''/t'') demo_state) ''missing.em''
      = Inl (template_not_found ''missing.em'')"
    by code_simp
  from expand_template_lookup_fails [OF la this] empty show ?thesis
    by (simp add: push_template_prefix_path_def)
qed

lemma write_if_necessary_decision:
  assumes "os_path_exists (fsys st) out \<or> os_path_dirname out \<noteq> []"
  shows "write_if_necessary out mt c st =
     (if os_path_exists (fsys st) out \<and> (mt = None \<or> mtime_of (fsys st) out > the mt)
          \<and> read_text (fsys st) out = Inr c
      then (Inr (), st)
      else (Inr (),
            write_text out c
              (if os_path_exists (fsys st) out \<or> os_path_dirname out \<in> dirs (fsys st) then st
               else st\<lparr>fsys := (fsys st)\<lparr>dirs := dirs (fsys st)
                                       \<union> set (dir_prefixes (os_path_dirname out))\<rparr>\<rparr>)))"
  using assms
  by (auto simp: write_if_necessary_def os_path_exists_def os_path_getmtime_def read_text_def
      mtime_of_def os_makedirs_def)

text \<open>
  The decision for the whole of \<^verbatim>\<open>expand_template\<close>: when rendering returns and
  the post-processed text is \<open>c\<close>, and the output file exists or its path has a
  directory part, the call returns; the file system is untouched exactly when the file
  exists, is newer than the minimum timestamp (if one is given) and holds \<open>c\<close>, and
  otherwise the file holds \<open>c\<close> and its directory exists.
\<close>

lemma expand_template_write_decision:
  assumes la: "legacy_api bp0 n0 = (b, n)"
    and lk: "get_template_path (push_template_prefix_path b st) n = Inr tp"
    and co: "em_Interpreter E = None"
    and cd: "copy_data data (push_template_prefix_path b st) = (l, st4)"
    and tr: "expand_template_try E depth tp l st4 = (Inr u, st5)"
    and pp: "(case pp of None \<Rightarrow> Inr (getvalue st5) | Some callback \<Rightarrow> callback (getvalue st5))
               = Inr c"
    and dir: "os_path_exists (fsys st) out \<or> os_path_dirname out \<noteq> []"
  shows "fst (expand_template E depth n0 data out mt bp0 pp st) = Inr ()
     \<and> fsys (snd (expand_template E depth n0 data out mt bp0 pp st)) =
        (if os_path_exists (fsys st) out \<and> (mt = None \<or> mtime_of (fsys st) out > the mt)
             \<and> read_text (fsys st) out = Inr c
         then fsys st
         else \<lparr>files = (files (fsys st))(out \<mapsto> File c (now st)),
               dirs = (if os_path_exists (fsys st) out \<or> os_path_dirname out \<in> dirs (fsys st)
                       then dirs (fsys st)
                       else dirs (fsys st) \<union> set (dir_prefixes (os_path_dirname out)))\<rparr>)"
proof -
  let ?st7 = "shutdown (pop_template_prefix_path st5)"
  from expand_template_try_frame [OF tr] copy_data_facts(4,6) [OF cd]
  have same: "fsys ?st7 = fsys st" "now ?st7 = now st"
    by (simp_all add: rendering_frame_def shutdown_def pop_template_prefix_path_def
        push_template_prefix_path_def)
  from expand_template_try_returns [OF la lk co cd tr, of out mt pp] pp
  have run: "expand_template E depth n0 data out mt bp0 pp st = write_if_necessary out mt c ?st7"
    by (cases pp) auto
  from dir same have "os_path_exists (fsys ?st7) out \<or> os_path_dirname out \<noteq> []"
    by simp
  from write_if_necessary_decision [OF this, of mt c] run same show ?thesis
    by (auto simp: write_text_def)
qed

text \<open>
  C1. For an output path without a directory part that names no file yet, the content
  is not written: \<^verbatim>\<open>os.path.dirname\<close> gives the empty string, \<^verbatim>\<open>os.makedirs\<close>
  raises \<open>FileNotFoundError\<close> for it, and only \<open>FileExistsError\<close> is caught. (For
  every other output path the decision is as the two lemmas before state it.)
\<close>

theorem expand_template_bare_output_file:
  "os_path_dirname ''out.h'' = []
   \<and> \<not> os_path_exists (fsys demo_state) ''out.h''
   \<and> fst (expand_template demo_env 3 ''ok.em'' 0 ''out.h'' None (Some (Path ''/t'')) None
             demo_state) = Inl (file_not_found [])
   \<and> \<not> os_path_exists
         (fsys (snd (expand_template demo_env 3 ''ok.em'' 0 ''out.h'' None (Some (Path ''/t''))
                       None demo_state))) ''out.h''"
  by code_simp

section \<open>Properties of template lookup\<close>

lemma probe_Some:
  "probe fs ps n = Some p \<Longrightarrow>
   \<exists>earlier b later. ps = earlier @ b # later \<and> p = truediv b n \<and> exists fs p
     \<and> (\<forall>d \<in> set earlier. \<not> exists fs (truediv d n))"
proof (induction ps)
  case Nil
  then show ?case by simp
next
  case (Cons a ps)
  show ?case
  proof (cases "exists fs (truediv a n)")
    case True
    with Cons.prems have "p = truediv a n"
      by (simp add: Let_def)
    with True have "a # ps = [] @ a # ps \<and> p = truediv a n \<and> exists fs p
        \<and> (\<forall>d \<in> set []. \<not> exists fs (truediv d n))"
      by simp
    then show ?thesis by blast
  next
    case False
    with Cons.prems have "probe fs ps n = Some p"
      by (simp add: Let_def)
    from Cons.IH [OF this] obtain earlier b later where
      "ps = earlier @ b # later" "p = truediv b n" "exists fs p"
      "\<forall>d \<in> set earlier. \<not> exists fs (truediv d n)"
      by blast
    with False have "a # ps = (a # earlier) @ b # later \<and> p = truediv b n \<and> exists fs p
        \<and> (\<forall>d \<in> set (a # earlier). \<not> exists fs (truediv d n))"
      by simp
    then show ?thesis by blast
  qed
qed

lemma probe_None:
  "probe fs ps n = None \<longleftrightarrow> (\<forall>d \<in> set ps. \<not> exists fs (truediv d n))"
  by (induction ps) (simp_all add: Let_def)

text \<open>
  C2, as the code has it. A directory is pushed at the end of the search path, and
  \<^verbatim>\<open>get_template_path\<close> (which the top-level expansion and every nested inclusion
  call) probes the path from its start: the template it returns lies in a directory
  of the path, and no directory pushed before that one holds the name. It raises
  \<^verbatim>\<open>Failed to find template\<close>, and then no directory on the path holds the name.
\<close>

theorem get_template_path_earliest_pushed_first:
  "template_prefix_path (push_template_prefix_path b0 st) = template_prefix_path st @ [b0]
   \<and> (case get_template_path st template_name of
        Inr p \<Rightarrow>
          (\<exists>earlier b later. template_prefix_path st = earlier @ b # later
             \<and> p = truediv b template_name \<and> exists (fsys st) p
             \<and> (\<forall>d \<in> set earlier. \<not> exists (fsys st) (truediv d template_name)))
      | Inl e \<Rightarrow>
          e = template_not_found template_name
          \<and> (\<forall>d \<in> set (template_prefix_path st). \<not> exists (fsys st) (truediv d template_name)))"
proof (cases "probe (fsys st) (template_prefix_path st) template_name")
  case None
  then have "\<forall>d \<in> set (template_prefix_path st). \<not> exists (fsys st) (truediv d template_name)"
    by (simp only: probe_None)
  with None show ?thesis
    by (simp add: get_template_path_def push_template_prefix_path_def)
next
  case (Some p)
  from probe_Some [OF Some] Some show ?thesis
    by (simp add: get_template_path_def push_template_prefix_path_def)
qed

text \<open>
  C2 on a path of two directories, \<^verbatim>\<open>/u\<close> pushed before \<^verbatim>\<open>/t\<close>.
\<close>

theorem get_template_path_earliest_pushed_first_witness:
  "template_prefix_path (push_template_prefix_path (Path ''/t'')
      (push_template_prefix_path (Path ''/u'') demo_state)) = [Path ''/u'', Path ''/t'']
   \<and> get_template_path (push_template_prefix_path (Path ''/t'')
        (push_template_prefix_path (Path ''/u'') demo_state)) ''bad.em'' = Inr (Path ''/t/bad.em'')
   \<and> \<not> exists (fsys demo_state) (Path ''/u/bad.em'')
   \<and> get_template_path (push_template_prefix_path (Path ''/t'')
        (push_template_prefix_path (Path ''/u'') demo_state)) ''missing.em''
       = Inl (template_not_found ''missing.em'')
   \<and> \<not> exists (fsys demo_state) (Path ''/u/missing.em'')
   \<and> \<not> exists (fsys demo_state) (Path ''/t/missing.em'')"
proof -
  let ?st1 = "push_template_prefix_path (Path ''/u'') demo_state"
  let ?st = "push_template_prefix_path (Path ''/t'') ?st1"
  have tpp: "template_prefix_path ?st = [Path ''/u'', Path ''/t'']"
    using get_template_path_earliest_pushed_first [of "Path ''/t''" ?st1 "''x''"]
      get_template_path_earliest_pushed_first [of "Path ''/u''" demo_state "''x''"]
    by (simp add: demo_state_def)
  have fs: "fsys ?st = fsys demo_state"
    by (simp add: push_template_prefix_path_def)
  have found: "get_template_path ?st ''bad.em'' = Inr (Path ''/t/bad.em'')"
    by code_simp
  from get_template_path_earliest_pushed_first [of "Path ''/t''" ?st "''bad.em''"] found
  obtain earlier b later where split: "template_prefix_path ?st = earlier @ b # later"
    and p: "Path ''/t/bad.em'' = truediv b ''bad.em''"
    and none: "\<forall>d \<in> set earlier. \<not> exists (fsys ?st) (truediv d ''bad.em'')"
    by auto
  have nb: "truediv (Path ''/u'') ''bad.em'' \<noteq> Path ''/t/bad.em''"
    by code_simp
  from split tpp p nb have "earlier = [Path ''/u'']"
    by (cases earlier; cases "tl earlier") auto
  with none fs have nu: "\<not> exists (fsys demo_state) (truediv (Path ''/u'') ''bad.em'')"
    by simp
  have ub: "truediv (Path ''/u'') ''bad.em'' = Path ''/u/bad.em''"
    by code_simp
  have missing: "get_template_path ?st ''missing.em'' = Inl (template_not_found ''missing.em'')"
    by code_simp
  from get_template_path_earliest_pushed_first [of "Path ''/t''" ?st "''missing.em''"] missing
  have "\<forall>d \<in> set (template_prefix_path ?st). \<not> exists (fsys ?st) (truediv d ''missing.em'')"
    by simp
  with tpp fs have "\<not> exists (fsys demo_state) (truediv (Path ''/u'') ''missing.em'')"
      "\<not> exists (fsys demo_state) (truediv (Path ''/t'') ''missing.em'')"
    by simp_all
  moreover have "truediv (Path ''/u'') ''missing.em'' = Path ''/u/missing.em''"
      "truediv (Path ''/t'') ''missing.em'' = Path ''/t/missing.em''"
    by code_simp+
  ultimately show ?thesis
    using tpp found nu ub missing by simp
qed

text \<open>
  C2 as the specification words it fails: \<^verbatim>\<open>/t\<close> is the most recently pushed
  directory and holds \<^verbatim>\<open>ok.em\<close>, yet the lookup returns \<^verbatim>\<open>/u/ok.em\<close> from the
  directory pushed earlier, and an expansion with base directory \<^verbatim>\<open>/t\<close> writes the
  text of \<^verbatim>\<open>/u/ok.em\<close>.
\<close>

theorem most_recently_pushed_probed_last:
  "template_prefix_path (push_template_prefix_path (Path ''/t'')
      (push_template_prefix_path (Path ''/u'') demo_state)) = [Path ''/u'', Path ''/t'']
   \<and> exists (fsys demo_state) (truediv (Path ''/t'') ''ok.em'')
   \<and> get_template_path (push_template_prefix_path (Path ''/t'')
        (push_template_prefix_path (Path ''/u'') demo_state)) ''ok.em'' = Inr (Path ''/u/ok.em'')
   \<and> Path ''/u/ok.em'' \<noteq> truediv (Path ''/t'') ''ok.em''
   \<and> files (fsys (snd (expand_template demo_env 3 ''ok.em'' 0 ''/out/stale.h'' None
        (Some (Path ''/t'')) None (push_template_prefix_path (Path ''/u'') demo_state))))
        ''/out/stale.h'' = Some (File ''other'' 9)"
  by code_simp

section \<open>Properties of the nested-inclusion callable\<close>




section \<open>Properties of the generation orchestrator\<close>

lemma assert_templates_exist_missing:
  "\<exists>k \<in> set ks. \<not> exists fs (truediv bp k) \<Longrightarrow>
   \<exists>k \<in> set ks. \<not> exists fs (truediv bp k)
     \<and> assert_templates_exist fs bp ks
         = Some (Exc AssertionError (''Could not find template: '' @ k))"
proof (induction ks)
  case Nil
  then show ?case by simp
next
  case (Cons k ks)
  show ?case
  proof (cases "exists fs (truediv bp k)")
    case True
    with Cons.prems have "\<exists>k \<in> set ks. \<not> exists fs (truediv bp k)"
      by simp
    from Cons.IH [OF this] True show ?thesis
      by auto
  next
    case False
    then show ?thesis by simp
  qed
qed

text \<open>
  C9. When the arguments file has been read and some key of the mapping names no file
  under its \<^verbatim>\<open>template_dir\<close>, \<^verbatim>\<open>generate_files\<close> raises \<open>AssertionError\<close> for such a
  key and leaves the state as it was: nothing is written or printed. The outcome is the
  same whatever the IDL parser, the JSON decoder of side files, the template engine and
  the other arguments are, so none of them has been consulted.
\<close>

theorem generate_files_unknown_template:
  assumes "read_generator_arguments E (fsys st) generator_arguments_file = Inr args"
    and "args_template_dir args = Some td"
    and "\<exists>k \<in> set (map fst mapping). \<not> exists (fsys st) (truediv (Path td) k)"
  shows "\<exists>k \<in> set (map fst mapping). \<not> exists (fsys st) (truediv (Path td) k)
     \<and> generate_files E depth generator_arguments_file mapping additional_context keep_case
          post_process_callback st
         = (Inl (Exc AssertionError (''Could not find template: '' @ k)), st)
     \<and> (\<forall>E' depth' additional_context' keep_case' post_process_callback'.
          read_generator_arguments E' (fsys st) generator_arguments_file = Inr args \<longrightarrow>
          generate_files E' depth' generator_arguments_file mapping additional_context'
            keep_case' post_process_callback' st
          = (Inl (Exc AssertionError (''Could not find template: '' @ k)), st))"
proof -
  from assert_templates_exist_missing [OF assms(3)] obtain k where
    k: "k \<in> set (map fst mapping)" "\<not> exists (fsys st) (truediv (Path td) k)"
    and a: "assert_templates_exist (fsys st) (Path td) (map fst mapping)
         = Some (Exc AssertionError (''Could not find template: '' @ k))"
    by blast
  have "generate_files E' depth' generator_arguments_file mapping ac' kc' pp' st
         = (Inl (Exc AssertionError (''Could not find template: '' @ k)), st)"
    if "read_generator_arguments E' (fsys st) generator_arguments_file = Inr args"
    for E' depth' ac' kc' pp'
    using that assms(2) a by (simp add: generate_files_def)
  with k assms(1) show ?thesis
    by blast
qed

text \<open>
  C9 on a mapping whose second key is unknown.
\<close>

theorem generate_files_unknown_template_witness:
  "\<not> exists (fsys demo_state) (truediv (Path ''/t'') ''nope.em'')
   \<and> generate_files demo_env 3 ''/args.json'' [(''ok.em'', ''%s.h''), (''nope.em'', ''%s.c'')]
        None False None demo_state
       = (Inl (Exc AssertionError ''Could not find template: nope.em''), demo_state)"
proof -
  let ?mapping = "[(''ok.em'', ''%s.h''), (''nope.em'', ''%s.c'')]"
  have rd: "read_generator_arguments demo_env (fsys demo_state) ''/args.json'' = Inr demo_args"
    by (simp add: read_generator_arguments_def read_text_def demo_env_def demo_state_def)
  have td: "args_template_dir demo_args = Some ''/t''"
    by (simp add: demo_args_def)
  have ok: "exists (fsys demo_state) (truediv (Path ''/t'') ''ok.em'')"
    by code_simp
  have nope: "\<not> exists (fsys demo_state) (truediv (Path ''/t'') ''nope.em'')"
    by code_simp
  then have "\<exists>k \<in> set (map fst ?mapping). \<not> exists (fsys demo_state) (truediv (Path ''/t'') k)"
    by simp
  from generate_files_unknown_template [OF rd td this, of 3 None False None]
  obtain k where k: "k \<in> set (map fst ?mapping)"
      "\<not> exists (fsys demo_state) (truediv (Path ''/t'') k)"
    and run: "generate_files demo_env 3 ''/args.json'' ?mapping None False None demo_state
       = (Inl (Exc AssertionError (''Could not find template: '' @ k)), demo_state)"
    by blast
  from k ok have "k = ''nope.em''"
    by auto
  with run nope show ?thesis
    by simp
qed






end
